theory Spec2Isabelle
  imports Complex_Main "HOL-Library.AList"
begin

section \<open>The values \<open>put-logs.py\<close> works on\<close>

text \<open>
  \<open>tools/put-logs.py\<close> is one function, \<open>main\<close>: it parses the command line, reads
  the named file, parses it as JSON, stamps every record, and hands the records to
  CloudWatch Logs in one \<open>put_log_events\<close> call.

  What \<open>json.loads\<close> returns is a tree of Python values: \<open>None\<close>, \<open>bool\<close>, \<open>int\<close>
  (unbounded), \<open>float\<close>, \<open>str\<close>, \<open>list\<close> and \<open>dict\<close> with \<open>str\<close> keys. A \<open>dict\<close> keeps
  its keys in insertion order, which is the order \<open>json.dumps\<close> writes them in, so a
  \<open>dict\<close> is an association list. Every \<open>list\<close> and \<open>dict\<close> of the tree is a fresh
  object that nothing else refers to, so the in-place writes of \<open>main\<close> are modelled by
  returning the updated tree.
\<close>

datatype pyfloat = Finite rat | PosInf | NegInf | NaN

datatype json =
    JNull
  | JBool bool
  | JInt int
  | JFloat pyfloat
  | JStr string
  | JList "json list"
  | JDict "(string \<times> json) list"

text \<open>
  The exceptions that can leave \<open>main\<close>. None is caught, so each ends the process with
  a traceback and exit status 1. \<open>SDKError\<close> stands for whatever boto3 raises.
\<close>

datatype exn =
    OSError
  | UnicodeDecodeError
  | JSONDecodeError
  | TypeError
  | AttributeError
  | SDKError

text \<open>
  How a run ends: \<open>SystemExit c\<close> is argparse leaving with status \<open>c\<close>, \<open>Uncaught e\<close> an
  exception nobody handles, \<open>Returned\<close> the normal end of \<open>main\<close>.
\<close>

datatype outcome = SystemExit int | Uncaught exn | Returned

fun exit_code :: "outcome \<Rightarrow> int" where
  "exit_code (SystemExit c) = c"
| "exit_code (Uncaught e) = 1"
| "exit_code Returned = 0"

section \<open>The command line (lines 12 to 62)\<close>

text \<open>
  The parser is built by \<open>argparse.ArgumentParser(description=...)\<close>, so it has the
  \<open>-h/--help\<close> action, and four arguments are added: the positional \<open>file\<close>,
  \<open>--log-group\<close> and \<open>--log-stream\<close> with \<open>required=True\<close>, and \<open>--region\<close>.
  argparse's own scanning of \<open>sys.argv\<close> is library code; a command line is given here by
  what it makes argparse see: whether the help action is met, and the value, if any,
  supplied for each of the four arguments.
\<close>

record cmdline =
  help_flag :: bool
  file_arg :: "string option"
  log_group_arg :: "string option"
  log_stream_arg :: "string option"
  region_arg :: "string option"

text \<open>
  The namespace \<open>parse_args\<close> returns; \<open>file_name\<close> is \<open>args.file\<close>.
\<close>

record args =
  file_name :: string
  log_group :: string
  log_stream :: string
  region :: "string option"

text \<open>
  \<open>parser.parse_args()\<close>: \<open>Inl c\<close> is \<open>SystemExit(c)\<close>. The help action prints the help
  and exits with status 0 when it is met, which is before the check for required
  arguments. A missing positional or required option is a usage error: argparse prints
  the usage and exits with status 2.
\<close>

definition parse_args :: "cmdline \<Rightarrow> int + args" where
  "parse_args cl =
     (if help_flag cl then Inl 0
      else case (file_arg cl, log_group_arg cl, log_stream_arg cl) of
        (Some f, Some g, Some st) \<Rightarrow>
          Inr \<lparr>file_name = f, log_group = g, log_stream = st, region = region_arg cl\<rparr>
      | _ \<Rightarrow> Inl 2)"

section \<open>The world around the script\<close>

text \<open>
  One \<open>put_log_events\<close> request: the keyword arguments of lines 83 to 88.
\<close>

record log_event =
  message :: string
  timestamp :: int

record request =
  logGroupName :: string
  logStreamName :: string
  logEvents :: "log_event list"

text \<open>
  Everything \<open>main\<close> calls that is not in the repository is a field of the environment:
  \<^item> \<open>read_text p\<close>: \<open>open(p, 'r')\<close> followed by \<open>file.read()\<close>, the text or the exception;
  \<^item> \<open>json_loads\<close> and \<open>json_dumps\<close>: the functions of Python's \<open>json\<close> module;
  \<^item> \<open>time k\<close>: what the \<open>k\<close>-th call of \<open>time.time()\<close> in this run returns, in seconds
    (a float in Python; a rational here, with exact arithmetic on it);
  \<^item> \<open>session_init kw\<close>: \<open>boto3.session.Session(**kwargs)\<close>, where \<open>kw\<close> is the value
    of \<open>region_name\<close> in \<open>kwargs\<close> if it is there; \<open>None\<close> when no exception is raised;
  \<^item> \<open>client_init kw\<close>: \<open>session.client('logs')\<close> on that session;
  \<^item> \<open>put_log_events_call r\<close>: \<open>logs.put_log_events\<close> with the request \<open>r\<close>.
\<close>

record env =
  read_text :: "string \<Rightarrow> exn + string"
  json_loads :: "string \<Rightarrow> exn + json"
  json_dumps :: "json \<Rightarrow> string"
  time :: "nat \<Rightarrow> rat"
  session_init :: "string option \<Rightarrow> exn option"
  client_init :: "string option \<Rightarrow> exn option"
  put_log_events_call :: "request \<Rightarrow> exn option"

text \<open>
  What a run does to the world, in order: opening the input file, creating the
  session, creating the client, and the \<open>put_log_events\<close> call. An effect is recorded
  when the call is made, whether or not it raises.
\<close>

datatype effect =
    OpenFile string
  | NewSession "string option"
  | NewClient
  | PutLogEvents request

section \<open>Loading and stamping the records (lines 66 to 75)\<close>

text \<open>Python's \<open>int(x)\<close> on a float: truncation towards zero.\<close>

definition py_int :: "rat \<Rightarrow> int" where
  "py_int x = (if 0 \<le> x then \<lfloor>x\<rfloor> else \<lceil>x\<rceil>)"

text \<open>
  Lines 69 and 70: \<open>if isinstance(levts, dict): levts = [levts]\<close>.
\<close>

fun wrap_dict :: "json \<Rightarrow> json" where
  "wrap_dict (JDict d) = JList [JDict d]"
| "wrap_dict v = v"

text \<open>
  \<open>for e in levts\<close>: a list gives its elements, a string its characters, a dictionary
  its keys; \<open>None\<close>, a boolean and a number are not iterable (\<open>TypeError\<close>).
\<close>

fun py_iter :: "json \<Rightarrow> exn + json list" where
  "py_iter (JList xs) = Inr xs"
| "py_iter (JStr s) = Inr (map (\<lambda>c. JStr [c]) s)"
| "py_iter (JDict d) = Inr (map (\<lambda>kv. JStr (fst kv)) d)"
| "py_iter v = Inl TypeError"

text \<open>
  Line 75 on one element, \<open>e.get('_aws', {})['Timestamp'] = ts\<close>, with the right-hand
  side already evaluated to \<open>ts\<close>:
  \<^item> only a \<open>dict\<close> has \<open>get\<close>; on anything else the attribute lookup raises;
  \<^item> when the key \<open>_aws\<close> is absent, \<open>get\<close> returns the fresh \<open>{}\<close> of the call; the
    store goes into that dictionary, which nothing refers to afterwards, and \<open>e\<close> is
    as it was;
  \<^item> when \<open>_aws\<close> holds a \<open>dict\<close>, the store updates that dictionary in place: an
    existing \<open>Timestamp\<close> keeps its position, a new one goes last
    (\<^const>\<open>AList.update\<close>);
  \<^item> when \<open>_aws\<close> holds anything else, the item assignment raises \<open>TypeError\<close>.
\<close>

fun set_timestamp :: "json \<Rightarrow> int \<Rightarrow> exn + json" where
  "set_timestamp (JDict d) ts =
     (case map_of d ''_aws'' of
        None \<Rightarrow> Inr (JDict d)
      | Some (JDict a) \<Rightarrow>
          Inr (JDict (AList.update ''_aws'' (JDict (AList.update ''Timestamp'' (JInt ts) a)) d))
      | Some _ \<Rightarrow> Inl TypeError)"
| "set_timestamp v ts = Inl AttributeError"

text \<open>
  The loop of lines 71 to 75 over the elements, \<open>k\<close> being the number of clock readings
  taken so far. Each round reads the clock once, for
  \<open>int(time.time() * 1000 - 1000)\<close>, before it touches the element; the first exception
  ends the loop.
\<close>

fun normalize :: "(nat \<Rightarrow> rat) \<Rightarrow> nat \<Rightarrow> json list \<Rightarrow> exn + json list" where
  "normalize clock k [] = Inr []"
| "normalize clock k (e # es) =
     (case set_timestamp e (py_int (clock k * 1000 - 1000)) of
        Inl ex \<Rightarrow> Inl ex
      | Inr e' \<Rightarrow>
          (case normalize clock (Suc k) es of
             Inl ex \<Rightarrow> Inl ex
           | Inr es' \<Rightarrow> Inr (e' # es')))"

section \<open>The upload (lines 77 to 89)\<close>

text \<open>
  The list comprehension of lines 85 to 88 over the stamped records: one event per
  record, in order, each with its own clock reading \<open>int(time.time() * 1000)\<close>.
\<close>

fun build_events :: "(json \<Rightarrow> string) \<Rightarrow> (nat \<Rightarrow> rat) \<Rightarrow> nat \<Rightarrow> json list \<Rightarrow> log_event list" where
  "build_events dumps clock k [] = []"
| "build_events dumps clock k (m # ms) =
     \<lparr>message = dumps m, timestamp = py_int (clock k * 1000)\<rparr>
       # build_events dumps clock (Suc k) ms"

text \<open>
  Lines 77 to 89. \<open>kwargs\<close> holds \<open>region_name\<close> exactly when \<open>--region\<close> was given, so it
  is the optional region itself. \<open>k\<close> is the number of clock readings taken before.
\<close>

definition upload :: "env \<Rightarrow> args \<Rightarrow> nat \<Rightarrow> json list \<Rightarrow> outcome \<times> effect list" where
  "upload env a k levts =
     (let kwargs = region a in
      case session_init env kwargs of
        Some ex \<Rightarrow> (Uncaught ex, [NewSession kwargs])
      | None \<Rightarrow>
          (case client_init env kwargs of
             Some ex \<Rightarrow> (Uncaught ex, [NewSession kwargs, NewClient])
           | None \<Rightarrow>
               (let req = \<lparr>logGroupName = log_group a, logStreamName = log_stream a,
                           logEvents = build_events (json_dumps env) (time env) k levts\<rparr>
                in (case put_log_events_call env req of
                      Some ex \<Rightarrow> Uncaught ex
                    | None \<Rightarrow> Returned,
                    [NewSession kwargs, NewClient, PutLogEvents req]))))"

section \<open>\<open>main\<close>\<close>

text \<open>
  The records of a run, as the loop of line 71 meets them: the text of the file (the
  variable \<open>log\<close> of line 67), parsed, wrapped if it is one dictionary, iterated.
\<close>

definition load :: "env \<Rightarrow> args \<Rightarrow> exn + json list" where
  "load env a =
     (case read_text env (file_name a) of
        Inl ex \<Rightarrow> Inl ex
      | Inr logtext \<Rightarrow>
          (case json_loads env logtext of
             Inl ex \<Rightarrow> Inl ex
           | Inr levts \<Rightarrow> py_iter (wrap_dict levts)))"

definition main :: "env \<Rightarrow> cmdline \<Rightarrow> outcome \<times> effect list" where
  "main env cl =
     (case parse_args cl of
        Inl c \<Rightarrow> (SystemExit c, [])
      | Inr a \<Rightarrow>
          (case load env a of
             Inl ex \<Rightarrow> (Uncaught ex, [OpenFile (file_name a)])
           | Inr recs \<Rightarrow>
               (case normalize (time env) 0 recs of
                  Inl ex \<Rightarrow> (Uncaught ex, [OpenFile (file_name a)])
                | Inr levts \<Rightarrow>
                    (case upload env a (length recs) levts of
                       (out, effs) \<Rightarrow> (out, OpenFile (file_name a) # effs)))))"

section \<open>Observations on records and runs\<close>


text \<open>\<open>e['_aws']['Timestamp']\<close>, when \<open>e\<close> and \<open>e['_aws']\<close> are dictionaries with these keys.\<close>

fun aws_timestamp :: "json \<Rightarrow> json option" where
  "aws_timestamp (JDict d) =
     (case map_of d ''_aws'' of Some (JDict a) \<Rightarrow> map_of a ''Timestamp'' | _ \<Rightarrow> None)"
| "aws_timestamp v = None"


section \<open>A test fixture\<close>

text \<open>
  The record of the script's own help text (line 38), the same record without its
  \<open>_aws\<close> entry, and the first one as line 75 leaves it when the clock reads
  1700000000 s.
\<close>

definition doc_aws :: "(string \<times> json) list" where
  "doc_aws =
     [(''CloudWatchMetrics'',
         JList [JDict [(''Namespace'', JStr ''MyNS''),
                       (''Dimensions'', JList [JList [JStr ''label'']]),
                       (''Metrics'', JList [JDict [(''Name'', JStr ''my_counter'')]])]]),
      (''Timestamp'', JInt 1)]"

definition doc_fields :: "(string \<times> json) list" where
  "doc_fields =
     [(''_aws'', JDict doc_aws), (''label'', JStr ''value1''), (''my_counter'', JInt 1)]"

definition doc_record :: json where
  "doc_record = JDict doc_fields"

definition bare_fields :: "(string \<times> json) list" where
  "bare_fields = [(''label'', JStr ''value1''), (''my_counter'', JInt 1)]"

definition bare_record :: json where
  "bare_record = JDict bare_fields"

definition stamped_record :: json where
  "stamped_record =
     JDict [(''_aws'', JDict [(''CloudWatchMetrics'',
                JList [JDict [(''Namespace'', JStr ''MyNS''),
                              (''Dimensions'', JList [JList [JStr ''label'']]),
                              (''Metrics'', JList [JDict [(''Name'', JStr ''my_counter'')]])]]),
              (''Timestamp'', JInt 1699999999000)]),
            (''label'', JStr ''value1''),
            (''my_counter'', JInt 1)]"

text \<open>A clock that starts at 1700000000 s and is one second later at every reading.\<close>

definition test_clock :: "nat \<Rightarrow> rat" where
  "test_clock k = of_nat (1700000000 + k)"

text \<open>A stand-in for \<open>json.dumps\<close> that writes the top-level keys only.\<close>

fun keys_text :: "json \<Rightarrow> string" where
  "keys_text (JDict d) = concat (map (\<lambda>kv. fst kv @ '';'') d)"
| "keys_text v = []"

text \<open>
  A world with three readable files: \<open>batch.json\<close> holds the array of the two records
  above, \<open>single.json\<close> the first record alone, \<open>broken.json\<close> a text that is not JSON;
  no other path can be opened, and the SDK calls succeed.
\<close>

definition test_env :: env where
  "test_env =
     \<lparr>read_text = (\<lambda>p. if p = ''batch.json'' then Inr ''array''
                       else if p = ''single.json'' then Inr ''object''
                       else if p = ''broken.json'' then Inr ''{''
                       else Inl OSError),
      json_loads = (\<lambda>t. if t = ''array'' then Inr (JList [doc_record, bare_record])
                        else if t = ''object'' then Inr doc_record
                        else Inl JSONDecodeError),
      json_dumps = keys_text,
      time = test_clock,
      session_init = (\<lambda>kw. None),
      client_init = (\<lambda>kw. None),
      put_log_events_call = (\<lambda>r. None)\<rparr>"

text \<open>The same world, but with the one-element array in \<open>single.json\<close>.\<close>

definition array_env :: env where
  "array_env =
     test_env\<lparr>json_loads :=
       (\<lambda>t. if t = ''object'' then Inr (JList [doc_record]) else json_loads test_env t)\<rparr>"

text \<open>The same world, but the \<open>put_log_events\<close> call is refused.\<close>

definition refusing_env :: env where
  "refusing_env = test_env\<lparr>put_log_events_call := (\<lambda>r. Some SDKError)\<rparr>"

text \<open>
  \<open>./put-logs.py p --log-group=TestLogGroup --log-stream=TestLogStream\<close>, the namespace
  argparse makes of it, the same command line without \<open>--log-group\<close>, and
  \<open>./put-logs.py -h\<close>.
\<close>

definition test_cmdline :: "string \<Rightarrow> cmdline" where
  "test_cmdline p =
     \<lparr>help_flag = False, file_arg = Some p, log_group_arg = Some ''TestLogGroup'',
      log_stream_arg = Some ''TestLogStream'', region_arg = None\<rparr>"

definition test_args :: "string \<Rightarrow> args" where
  "test_args p =
     \<lparr>file_name = p, log_group = ''TestLogGroup'', log_stream = ''TestLogStream'',
      region = None\<rparr>"

definition no_group_cmdline :: cmdline where
  "no_group_cmdline =
     \<lparr>help_flag = False, file_arg = Some ''batch.json'', log_group_arg = None,
      log_stream_arg = Some ''TestLogStream'', region_arg = None\<rparr>"

definition help_cmdline :: cmdline where
  "help_cmdline =
     \<lparr>help_flag = True, file_arg = None, log_group_arg = None, log_stream_arg = None,
      region_arg = None\<rparr>"

text \<open>The request the run on \<open>batch.json\<close> sends.\<close>

definition test_request :: request where
  "test_request =
     \<lparr>logGroupName = ''TestLogGroup'', logStreamName = ''TestLogStream'',
      logEvents = [\<lparr>message = ''_aws;label;my_counter;'', timestamp = 1700000002000\<rparr>,
                   \<lparr>message = ''label;my_counter;'', timestamp = 1700000003000\<rparr>]\<rparr>"

section \<open>Facts about the stages\<close>

lemma py_int_mono:
  assumes "x \<le> y"
  shows "py_int x \<le> py_int y"
proof (cases "0 \<le> x")
  case True
  with assms have "0 \<le> y" by simp
  with True assms show ?thesis by (simp add: py_int_def floor_mono)
next
  case neg: False
  show ?thesis
  proof (cases "0 \<le> y")
    case True
    from neg have "\<lceil>x\<rceil> \<le> 0" by (simp add: ceiling_le_iff)
    moreover from True have "0 \<le> \<lfloor>y\<rfloor>" by simp
    moreover from neg True have "py_int x = \<lceil>x\<rceil>" "py_int y = \<lfloor>y\<rfloor>"
      by (simp_all add: py_int_def)
    ultimately show ?thesis by linarith
  next
    case False
    with neg assms show ?thesis by (simp add: py_int_def ceiling_mono)
  qed
qed



lemma normalize_length: "normalize clock k recs = Inr levts \<Longrightarrow> length levts = length recs"
  by (induction recs arbitrary: k levts) (auto split: sum.splits)

lemma normalize_nth:
  "normalize clock k recs = Inr levts \<Longrightarrow> i < length recs \<Longrightarrow>
   set_timestamp (recs ! i) (py_int (clock (k + i) * 1000 - 1000)) = Inr (levts ! i)"
proof (induction recs arbitrary: k levts i)
  case Nil
  then show ?case by simp
next
  case (Cons e es)
  show ?case
  proof (cases i)
    case 0
    with Cons.prems show ?thesis by (auto split: sum.splits)
  next
    case (Suc j)
    with Cons.prems Cons.IH [of "Suc k" _ j] show ?thesis
      by (auto split: sum.splits)
  qed
qed


lemma build_events_length: "length (build_events dumps clock k ms) = length ms"
  by (induction ms arbitrary: k) auto

lemma build_events_nth:
  "i < length ms \<Longrightarrow>
   build_events dumps clock k ms ! i =
     \<lparr>message = dumps (ms ! i), timestamp = py_int (clock (k + i) * 1000)\<rparr>"
proof (induction ms arbitrary: k i)
  case Nil
  then show ?case by simp
next
  case (Cons m ms)
  then show ?case by (cases i) auto
qed

lemma main_reaches_upload:
  assumes "parse_args cl = Inr a" "load env a = Inr recs"
    "normalize (time env) 0 recs = Inr levts"
    "session_init env (region a) = None" "client_init env (region a) = None"
  shows "main env cl =
    (case put_log_events_call env
        \<lparr>logGroupName = log_group a, logStreamName = log_stream a,
         logEvents = build_events (json_dumps env) (time env) (length recs) levts\<rparr> of
       Some ex \<Rightarrow> Uncaught ex | None \<Rightarrow> Returned,
     [OpenFile (file_name a), NewSession (region a), NewClient,
      PutLogEvents \<lparr>logGroupName = log_group a, logStreamName = log_stream a,
         logEvents = build_events (json_dumps env) (time env) (length recs) levts\<rparr>])"
  using assms by (simp add: main_def upload_def Let_def)

lemma main_put_request:
  assumes "PutLogEvents req \<in> set (snd (main env cl))"
  shows "\<exists>a recs levts. parse_args cl = Inr a \<and> load env a = Inr recs \<and>
     normalize (time env) 0 recs = Inr levts \<and>
     session_init env (region a) = None \<and> client_init env (region a) = None \<and>
     req = \<lparr>logGroupName = log_group a, logStreamName = log_stream a,
         logEvents = build_events (json_dumps env) (time env) (length recs) levts\<rparr>"
  using assms
  by (auto simp: main_def upload_def Let_def split: sum.splits option.splits)

lemma set_timestamp_without_aws:
  "map_of d ''_aws'' = None \<Longrightarrow> set_timestamp (JDict d) ts = Inr (JDict d)"
  by simp

lemma set_timestamp_with_aws:
  "map_of d ''_aws'' = Some (JDict a) \<Longrightarrow>
   set_timestamp (JDict d) ts =
     Inr (JDict (AList.update ''_aws'' (JDict (AList.update ''Timestamp'' (JInt ts) a)) d))"
  by simp


lemma set_timestamp_aws_timestamp:
  assumes "set_timestamp e ts = Inr e'"
  shows "aws_timestamp e' = None \<or> aws_timestamp e' = Some (JInt ts)"
proof (cases e)
  case (JDict d)
  show ?thesis
  proof (cases "map_of d ''_aws''")
    case None
    with JDict assms show ?thesis by auto
  next
    case (Some x)
    with JDict assms show ?thesis
      by (cases x) (auto simp: update_conv')
  qed
qed (use assms in auto)

section \<open>The fixture, evaluated\<close>

lemma test_parse: "parse_args (test_cmdline p) = Inr (test_args p)"
  by (simp add: parse_args_def test_cmdline_def test_args_def)

lemma test_load: "load test_env (test_args ''batch.json'') = Inr [doc_record, bare_record]"
  by (simp add: load_def test_env_def test_args_def)

lemma test_py_int: "py_int (test_clock 0 * 1000 - 1000) = 1699999999000"
  "py_int (test_clock 1 * 1000 - 1000) = 1700000000000"
  "py_int (test_clock 2 * 1000) = 1700000002000"
  "py_int (test_clock 3 * 1000) = 1700000003000"
  by (simp_all add: py_int_def test_clock_def)

lemma test_normalize:
  "normalize test_clock 0 [doc_record, bare_record] = Inr [stamped_record, bare_record]"
  by (simp add: test_py_int doc_record_def doc_fields_def doc_aws_def bare_record_def
      bare_fields_def stamped_record_def)

lemma test_main:
  "main test_env (test_cmdline ''batch.json'') =
     (Returned, [OpenFile ''batch.json'', NewSession None, NewClient, PutLogEvents test_request])"
proof -
  have "time test_env = test_clock" "json_dumps test_env = keys_text"
    "session_init test_env (region (test_args ''batch.json'')) = None"
    "client_init test_env (region (test_args ''batch.json'')) = None"
    by (simp_all add: test_env_def)
  note env = this
  have n: "normalize (time test_env) 0 [doc_record, bare_record] = Inr [stamped_record, bare_record]"
    by (simp only: env test_normalize)
  show ?thesis
    unfolding main_reaches_upload [OF test_parse test_load n env(3,4)]
    by (simp add: env py_int_def test_clock_def stamped_record_def bare_record_def
        bare_fields_def test_request_def test_env_def test_args_def)
qed

section \<open>The claims\<close>

subsection \<open>C1: what normalization writes\<close>




subsection \<open>C2: a record without \<open>_aws\<close>\<close>

text \<open>
  C2. When the record at index \<open>i\<close> of the loaded batch is a dictionary without the key
  \<open>_aws\<close>, line 75 leaves it as it is (whatever the clock reads), it is the same record
  after the loop, and in a run that sends its request the message of event \<open>i\<close> is
  \<open>json.dumps\<close> of that unchanged record, which has no \<open>_aws\<close> key and so no \<open>_aws\<close>
  timestamp.
\<close>

theorem record_without_aws_uploaded_unchanged:
  assumes "parse_args cl = Inr a" "load env a = Inr recs"
    "PutLogEvents req \<in> set (snd (main env cl))"
    "i < length recs" "recs ! i = JDict d" "map_of d ''_aws'' = None"
  shows "set_timestamp (recs ! i) ts = Inr (recs ! i) \<and>
    (\<exists>levts. normalize (time env) 0 recs = Inr levts \<and> levts ! i = recs ! i) \<and>
    i < length (logEvents req) \<and>
    message (logEvents req ! i) = json_dumps env (JDict d) \<and>
    ''_aws'' \<notin> fst ` set d \<and> aws_timestamp (JDict d) = None"
proof -
  from main_put_request [OF assms(3)] assms(1,2)
  obtain levts where n: "normalize (time env) 0 recs = Inr levts"
    and req: "req = \<lparr>logGroupName = log_group a, logStreamName = log_stream a,
         logEvents = build_events (json_dumps env) (time env) (length recs) levts\<rparr>"
    by auto
  from normalize_nth [OF n assms(4)] assms(5,6) have same: "levts ! i = recs ! i"
    by simp
  have len: "length levts = length recs" by (rule normalize_length [OF n])
  from assms(4) len have "i < length levts" by simp
  from build_events_nth [OF this] req same assms(5)
  have "message (logEvents req ! i) = json_dumps env (JDict d)" by simp
  moreover from req len assms(4) have "i < length (logEvents req)"
    by (simp add: build_events_length)
  moreover from assms(6) have "''_aws'' \<notin> fst ` set d"
    by (simp add: map_of_eq_None_iff)
  ultimately show ?thesis using n same assms(5,6) by auto
qed

theorem record_without_aws_uploaded_unchanged_witness:
  "parse_args (test_cmdline ''batch.json'') = Inr (test_args ''batch.json'') \<and>
   load test_env (test_args ''batch.json'') = Inr [doc_record, bare_record] \<and>
   PutLogEvents test_request \<in> set (snd (main test_env (test_cmdline ''batch.json''))) \<and>
   [doc_record, bare_record] ! 1 = JDict bare_fields \<and>
   map_of bare_fields ''_aws'' = None \<and>
   set_timestamp bare_record 1700000000000 = Inr bare_record \<and>
   message (logEvents test_request ! 1) = json_dumps test_env bare_record \<and>
   message (logEvents test_request ! 1) = ''label;my_counter;''"
proof -
  have put: "PutLogEvents test_request \<in> set (snd (main test_env (test_cmdline ''batch.json'')))"
    by (simp add: test_main)
  have i: "1 < length [doc_record, bare_record]" by simp
  have r: "[doc_record, bare_record] ! 1 = JDict bare_fields" by (simp add: bare_record_def)
  have none: "map_of bare_fields ''_aws'' = None" by (simp add: bare_fields_def)
  from record_without_aws_uploaded_unchanged
    [OF test_parse test_load put i r none, of 1700000000000]
  have "set_timestamp bare_record 1700000000000 = Inr bare_record"
    "message (logEvents test_request ! 1) = json_dumps test_env bare_record"
    by (simp_all add: bare_record_def)
  moreover have "message (logEvents test_request ! 1) = ''label;my_counter;''"
    by (simp add: test_request_def)
  ultimately show ?thesis using test_parse test_load put r none by simp
qed

subsection \<open>C3: the one \<open>put_log_events\<close> call\<close>



subsection \<open>C4: one object, or an array of one object\<close>

text \<open>
  C4. Take two worlds that differ only in what the input file holds: in the first it
  parses to a single object, in the second to the one-element array of that object.
  The two runs are the same: the same way of ending and the same effects in the same
  order, the request with its events included.
\<close>

theorem single_object_as_one_element_array:
  assumes "parse_args cl = Inr a"
    "read_text e1 (file_name a) = Inr t1" "json_loads e1 t1 = Inr (JDict d)"
    "read_text e2 (file_name a) = Inr t2" "json_loads e2 t2 = Inr (JList [JDict d])"
    "json_dumps e1 = json_dumps e2" "time e1 = time e2"
    "session_init e1 = session_init e2" "client_init e1 = client_init e2"
    "put_log_events_call e1 = put_log_events_call e2"
  shows "main e1 cl = main e2 cl"
proof -
  from assms(2-5) have "load e1 a = load e2 a" by (simp add: load_def)
  moreover have "upload e1 a n ms = upload e2 a n ms" for n ms
    using assms(6-10) by (simp add: upload_def Let_def split: option.splits)
  ultimately show ?thesis
    using assms(1,7) by (simp add: main_def split: sum.splits)
qed

theorem single_object_as_one_element_array_witness:
  "parse_args (test_cmdline ''single.json'') = Inr (test_args ''single.json'') \<and>
   read_text test_env ''single.json'' = Inr ''object'' \<and>
   json_loads test_env ''object'' = Inr (JDict doc_fields) \<and>
   read_text array_env ''single.json'' = Inr ''object'' \<and>
   json_loads array_env ''object'' = Inr (JList [JDict doc_fields]) \<and>
   main test_env (test_cmdline ''single.json'') = main array_env (test_cmdline ''single.json'')"
proof -
  have r1: "read_text test_env (file_name (test_args ''single.json'')) = Inr ''object''"
    and l1: "json_loads test_env ''object'' = Inr (JDict doc_fields)"
    and r2: "read_text array_env (file_name (test_args ''single.json'')) = Inr ''object''"
    and l2: "json_loads array_env ''object'' = Inr (JList [JDict doc_fields])"
    by (simp_all add: test_env_def array_env_def test_args_def doc_record_def)
  have same: "json_dumps test_env = json_dumps array_env" "time test_env = time array_env"
    "session_init test_env = session_init array_env"
    "client_init test_env = client_init array_env"
    "put_log_events_call test_env = put_log_events_call array_env"
    by (simp_all add: array_env_def)
  from single_object_as_one_element_array [OF test_parse r1 l1 r2 l2 same]
  show ?thesis using test_parse r1 l1 r2 l2 by (simp add: test_args_def)
qed

subsection \<open>C5: the event's timestamp and the record's\<close>

text \<open>
  C5. In a run that sends its request, take the record at index \<open>i\<close> of a batch of \<open>n\<close>,
  and suppose the clock reading taken for its event (reading \<open>n + i\<close>) is not before the
  one taken for it in the loop of lines 71 to 75 (reading \<open>i\<close>). Then the timestamp of
  event \<open>i\<close> is at least the value the loop computed for the record, and at least the
  \<open>_aws.Timestamp\<close> the record carries after the loop, if it carries one.
\<close>

theorem event_timestamp_ge_record_timestamp:
  assumes "parse_args cl = Inr a" "load env a = Inr recs"
    "PutLogEvents req \<in> set (snd (main env cl))"
    "i < length recs" "time env i \<le> time env (length recs + i)"
  shows "\<exists>levts. normalize (time env) 0 recs = Inr levts \<and>
    i < length (logEvents req) \<and>
    py_int (time env i * 1000 - 1000) \<le> timestamp (logEvents req ! i) \<and>
    (\<forall>v. aws_timestamp (levts ! i) = Some (JInt v) \<longrightarrow> v \<le> timestamp (logEvents req ! i))"
proof -
  from main_put_request [OF assms(3)] assms(1,2)
  obtain levts where n: "normalize (time env) 0 recs = Inr levts"
    and req: "req = \<lparr>logGroupName = log_group a, logStreamName = log_stream a,
         logEvents = build_events (json_dumps env) (time env) (length recs) levts\<rparr>"
    by auto
  let ?ts = "py_int (time env i * 1000 - 1000)"
  have len: "length levts = length recs" by (rule normalize_length [OF n])
  with assms(4) have i: "i < length levts" by simp
  from build_events_nth [OF i] req
  have ev: "timestamp (logEvents req ! i) = py_int (time env (length recs + i) * 1000)"
    by simp
  from assms(5) have "time env i * 1000 - 1000 \<le> time env (length recs + i) * 1000"
    by simp
  then have le: "?ts \<le> timestamp (logEvents req ! i)"
    unfolding ev by (rule py_int_mono)
  from normalize_nth [OF n assms(4)]
  have "set_timestamp (recs ! i) ?ts = Inr (levts ! i)" by simp
  from set_timestamp_aws_timestamp [OF this] le
  have "\<forall>v. aws_timestamp (levts ! i) = Some (JInt v) \<longrightarrow> v \<le> timestamp (logEvents req ! i)"
    by auto
  moreover from req i have "i < length (logEvents req)" by (simp add: build_events_length)
  ultimately show ?thesis using n le by blast
qed

theorem event_timestamp_ge_record_timestamp_witness:
  "parse_args (test_cmdline ''batch.json'') = Inr (test_args ''batch.json'') \<and>
   load test_env (test_args ''batch.json'') = Inr [doc_record, bare_record] \<and>
   PutLogEvents test_request \<in> set (snd (main test_env (test_cmdline ''batch.json''))) \<and>
   time test_env 0 \<le> time test_env (length [doc_record, bare_record] + 0) \<and>
   py_int (time test_env 0 * 1000 - 1000) \<le> timestamp (logEvents test_request ! 0) \<and>
   aws_timestamp stamped_record = Some (JInt 1699999999000) \<and>
   1699999999000 \<le> timestamp (logEvents test_request ! 0)"
proof -
  have put: "PutLogEvents test_request \<in> set (snd (main test_env (test_cmdline ''batch.json'')))"
    by (simp add: test_main)
  have i: "0 < length [doc_record, bare_record]" by simp
  have mono: "time test_env 0 \<le> time test_env (length [doc_record, bare_record] + 0)"
    by (simp add: test_env_def test_clock_def)
  have n: "normalize (time test_env) 0 [doc_record, bare_record] =
      Inr [stamped_record, bare_record]"
    using test_normalize by (simp add: test_env_def)
  have st: "aws_timestamp stamped_record = Some (JInt 1699999999000)"
    by (simp add: stamped_record_def)
  from event_timestamp_ge_record_timestamp [OF test_parse test_load put i mono] n
  have le: "py_int (time test_env 0 * 1000 - 1000) \<le> timestamp (logEvents test_request ! 0)"
    and rec: "\<And>v. aws_timestamp ([stamped_record, bare_record] ! 0) = Some (JInt v) \<Longrightarrow>
        v \<le> timestamp (logEvents test_request ! 0)"
    by auto
  from rec [of 1699999999000] st
  have "1699999999000 \<le> timestamp (logEvents test_request ! 0)" by simp
  with le st show ?thesis using test_parse test_load put mono by simp
qed

subsection \<open>C6: a missing argument\<close>

text \<open>
  C6 says that a run whose command line lacks \<open>--log-group\<close>, \<open>--log-stream\<close> or the file
  exits with a non-zero status. The parser has argparse's help action (it is what shows
  the description of lines 13 to 53), which exits with status 0 before required
  arguments are checked. Here, on \<open>./put-logs.py -h\<close>: all three are missing and the exit
  status is 0.
\<close>

theorem help_exits_zero_without_required_arguments:
  "file_arg help_cmdline = None \<and> log_group_arg help_cmdline = None \<and>
   log_stream_arg help_cmdline = None \<and>
   exit_code (fst (main test_env help_cmdline)) = 0"
  by (simp add: help_cmdline_def main_def parse_args_def)

text \<open>
  C6, amended. When the file, \<open>--log-group\<close> or \<open>--log-stream\<close> is missing from the command
  line, the run has no effect at all (the input file is not opened) and ends in
  \<open>SystemExit\<close>: with status 2, argparse's usage error, unless help was requested, and
  with status 0 if it was. So without a help request the exit status is not zero.
\<close>

theorem missing_argument_exits_before_file_io:
  assumes "file_arg cl = None \<or> log_group_arg cl = None \<or> log_stream_arg cl = None"
  shows "snd (main env cl) = [] \<and>
    fst (main env cl) = SystemExit (if help_flag cl then 0 else 2) \<and>
    (help_flag cl \<or> exit_code (fst (main env cl)) \<noteq> 0)"
  using assms by (auto simp: main_def parse_args_def split: option.splits)

theorem missing_argument_exits_before_file_io_witness:
  "log_group_arg no_group_cmdline = None \<and>
   snd (main test_env no_group_cmdline) = [] \<and>
   fst (main test_env no_group_cmdline) = SystemExit 2 \<and>
   exit_code (fst (main test_env no_group_cmdline)) = 2"
proof -
  have missing: "file_arg no_group_cmdline = None \<or> log_group_arg no_group_cmdline = None \<or>
      log_stream_arg no_group_cmdline = None"
    and no_help: "\<not> help_flag no_group_cmdline"
    by (simp_all add: no_group_cmdline_def)
  from missing_argument_exits_before_file_io [OF missing, of test_env] no_help
  have "snd (main test_env no_group_cmdline) = []"
    "fst (main test_env no_group_cmdline) = SystemExit 2"
    by simp_all
  then show ?thesis by (simp add: no_group_cmdline_def)
qed

subsection \<open>C7: a file that cannot be read or parsed\<close>



subsection \<open>C8: the round trip through JSON text\<close>

text \<open>
  C8 is about \<open>json.loads (json.dumps m)\<close>. Both functions belong to Python's \<open>json\<close>
  module and are fields of the environment here; \<open>main\<close> calls \<open>json.dumps\<close> on every
  record and never parses what it wrote. Whether the round trip gives back an equal
  value is decided by that module and by Python's floats (the text it writes for a
  \<open>float\<close>, and the equality of two \<open>NaN\<close>s), so nothing is stated about it.
\<close>

subsection \<open>C9: what normalization leaves alone\<close>

text \<open>
  C9. When the loop of lines 71 to 75 ends without an exception, a record of the batch
  whose \<open>_aws\<close> is a dictionary is afterwards a dictionary with the same keys in the same
  order and the same value under every key but \<open>_aws\<close>; its \<open>_aws\<close> is a dictionary with
  the same value under every key but \<open>Timestamp\<close>, and \<open>Timestamp\<close> holds the value
  computed for the record.
\<close>

theorem normalize_frame:
  assumes "normalize clock k recs = Inr levts" "i < length recs"
    "recs ! i = JDict d" "map_of d ''_aws'' = Some (JDict a)"
  shows "\<exists>d' a'. levts ! i = JDict d' \<and> map fst d' = map fst d \<and>
    (\<forall>key. key \<noteq> ''_aws'' \<longrightarrow> map_of d' key = map_of d key) \<and>
    map_of d' ''_aws'' = Some (JDict a') \<and>
    (\<forall>key. key \<noteq> ''Timestamp'' \<longrightarrow> map_of a' key = map_of a key) \<and>
    map_of a' ''Timestamp'' = Some (JInt (py_int (clock (k + i) * 1000 - 1000)))"
proof -
  let ?ts = "py_int (clock (k + i) * 1000 - 1000)"
  let ?a = "AList.update ''Timestamp'' (JInt ?ts) a"
  let ?d = "AList.update ''_aws'' (JDict ?a) d"
  from normalize_nth [OF assms(1,2)] assms(3,4) have "levts ! i = JDict ?d" by simp
  moreover from assms(4) have "''_aws'' \<in> set (map fst d)"
    by (metis map_of_eq_None_iff option.distinct(1) set_map)
  then have "map fst ?d = map fst d" by (simp add: update_keys)
  moreover have "\<forall>key. key \<noteq> ''_aws'' \<longrightarrow> map_of ?d key = map_of d key"
    by (simp add: update_conv')
  moreover have "map_of ?d ''_aws'' = Some (JDict ?a)" by (simp add: update_conv')
  moreover have "\<forall>key. key \<noteq> ''Timestamp'' \<longrightarrow> map_of ?a key = map_of a key"
    by (simp add: update_conv')
  moreover have "map_of ?a ''Timestamp'' = Some (JInt ?ts)" by (simp add: update_conv')
  ultimately show ?thesis by blast
qed

theorem normalize_frame_witness:
  "normalize test_clock 0 [doc_record, bare_record] = Inr [stamped_record, bare_record] \<and>
   [doc_record, bare_record] ! 0 = JDict doc_fields \<and>
   map_of doc_fields ''_aws'' = Some (JDict doc_aws) \<and>
   (\<exists>d' a'. stamped_record = JDict d' \<and> map fst d' = [''_aws'', ''label'', ''my_counter''] \<and>
      map_of d' ''label'' = Some (JStr ''value1'') \<and> map_of d' ''my_counter'' = Some (JInt 1) \<and>
      map_of d' ''_aws'' = Some (JDict a') \<and>
      map_of a' ''CloudWatchMetrics'' = map_of doc_aws ''CloudWatchMetrics'' \<and>
      map_of a' ''Timestamp'' = Some (JInt 1699999999000))"
proof -
  have i: "0 < length [doc_record, bare_record]" by simp
  have r: "[doc_record, bare_record] ! 0 = JDict doc_fields" by (simp add: doc_record_def)
  have aws: "map_of doc_fields ''_aws'' = Some (JDict doc_aws)" by (simp add: doc_fields_def)
  from normalize_frame [OF test_normalize i r aws]
  obtain d' a' where d': "[stamped_record, bare_record] ! 0 = JDict d'"
    and keys: "map fst d' = map fst doc_fields"
    and other: "\<And>key. key \<noteq> ''_aws'' \<Longrightarrow> map_of d' key = map_of doc_fields key"
    and a': "map_of d' ''_aws'' = Some (JDict a')"
    and other': "\<And>key. key \<noteq> ''Timestamp'' \<Longrightarrow> map_of a' key = map_of doc_aws key"
    and ts: "map_of a' ''Timestamp'' = Some (JInt (py_int (test_clock (0 + 0) * 1000 - 1000)))"
    by blast
  from d' have "stamped_record = JDict d'" by simp
  moreover from keys have "map fst d' = [''_aws'', ''label'', ''my_counter'']"
    by (simp add: doc_fields_def)
  moreover from other [of "''label''"] other [of "''my_counter''"]
  have "map_of d' ''label'' = Some (JStr ''value1'')" "map_of d' ''my_counter'' = Some (JInt 1)"
    by (simp_all add: doc_fields_def)
  moreover from other' [of "''CloudWatchMetrics''"]
  have "map_of a' ''CloudWatchMetrics'' = map_of doc_aws ''CloudWatchMetrics''" by simp
  moreover from ts have "map_of a' ''Timestamp'' = Some (JInt 1699999999000)"
    by (simp add: test_py_int)
  ultimately have "stamped_record = JDict d' \<and> map fst d' = [''_aws'', ''label'', ''my_counter''] \<and>
      map_of d' ''label'' = Some (JStr ''value1'') \<and> map_of d' ''my_counter'' = Some (JInt 1) \<and>
      map_of d' ''_aws'' = Some (JDict a') \<and>
      map_of a' ''CloudWatchMetrics'' = map_of doc_aws ''CloudWatchMetrics'' \<and>
      map_of a' ''Timestamp'' = Some (JInt 1699999999000)"
    using a' by simp
  then have "\<exists>d' a'. stamped_record = JDict d' \<and>
      map fst d' = [''_aws'', ''label'', ''my_counter''] \<and>
      map_of d' ''label'' = Some (JStr ''value1'') \<and> map_of d' ''my_counter'' = Some (JInt 1) \<and>
      map_of d' ''_aws'' = Some (JDict a') \<and>
      map_of a' ''CloudWatchMetrics'' = map_of doc_aws ''CloudWatchMetrics'' \<and>
      map_of a' ''Timestamp'' = Some (JInt 1699999999000)"
    by (intro exI)
  with test_normalize r aws show ?thesis by (intro conjI)
qed

subsection \<open>C10: the payload is a function of the inputs\<close>

text \<open>
  C10. Take two runs on the same command line, in worlds with the same content of the
  input file, the same \<open>json\<close> functions and the same clock readings; the SDK may answer
  differently in the two. If both send a request, it is the same request: the same log
  group and stream and the same list of events. If moreover the session and the client
  are created alike in both, the two runs have the same effects altogether.
\<close>

theorem same_inputs_same_payload:
  assumes "parse_args cl = Inr a"
    "read_text e1 (file_name a) = read_text e2 (file_name a)"
    "json_loads e1 = json_loads e2" "json_dumps e1 = json_dumps e2" "time e1 = time e2"
  shows "(\<forall>r1 r2. PutLogEvents r1 \<in> set (snd (main e1 cl)) \<longrightarrow>
             PutLogEvents r2 \<in> set (snd (main e2 cl)) \<longrightarrow> r1 = r2) \<and>
    (session_init e1 (region a) = session_init e2 (region a) \<longrightarrow>
     client_init e1 (region a) = client_init e2 (region a) \<longrightarrow>
       snd (main e1 cl) = snd (main e2 cl))"
proof -
  from assms(2,3) have ld: "load e1 a = load e2 a"
    by (simp add: load_def split: sum.splits)
  have "r1 = r2" if "PutLogEvents r1 \<in> set (snd (main e1 cl))"
    "PutLogEvents r2 \<in> set (snd (main e2 cl))" for r1 r2
    using main_put_request [OF that(1)] main_put_request [OF that(2)] assms(1,4,5) ld
    by auto
  moreover have "snd (main e1 cl) = snd (main e2 cl)"
    if "session_init e1 (region a) = session_init e2 (region a)"
      "client_init e1 (region a) = client_init e2 (region a)"
    using that assms(1,4,5) ld
    by (auto simp: main_def upload_def Let_def split: sum.splits option.splits)
  ultimately show ?thesis by blast
qed

theorem same_inputs_same_payload_witness:
  "parse_args (test_cmdline ''batch.json'') = Inr (test_args ''batch.json'') \<and>
   read_text test_env ''batch.json'' = read_text refusing_env ''batch.json'' \<and>
   json_loads test_env = json_loads refusing_env \<and>
   json_dumps test_env = json_dumps refusing_env \<and>
   time test_env = time refusing_env \<and>
   put_log_events_call test_env test_request \<noteq> put_log_events_call refusing_env test_request \<and>
   snd (main refusing_env (test_cmdline ''batch.json'')) =
     [OpenFile ''batch.json'', NewSession None, NewClient, PutLogEvents test_request]"
proof -
  have same: "read_text test_env (file_name (test_args ''batch.json'')) =
      read_text refusing_env (file_name (test_args ''batch.json''))"
    "json_loads test_env = json_loads refusing_env"
    "json_dumps test_env = json_dumps refusing_env"
    "time test_env = time refusing_env"
    and sdk: "session_init test_env (region (test_args ''batch.json'')) =
      session_init refusing_env (region (test_args ''batch.json''))"
    "client_init test_env (region (test_args ''batch.json'')) =
      client_init refusing_env (region (test_args ''batch.json''))"
    and differ: "put_log_events_call test_env test_request \<noteq>
      put_log_events_call refusing_env test_request"
    by (simp_all add: refusing_env_def test_env_def)
  from same_inputs_same_payload [OF test_parse same] sdk
  have "snd (main test_env (test_cmdline ''batch.json'')) =
      snd (main refusing_env (test_cmdline ''batch.json''))"
    by blast
  then have "snd (main refusing_env (test_cmdline ''batch.json'')) =
      [OpenFile ''batch.json'', NewSession None, NewClient, PutLogEvents test_request]"
    by (simp add: test_main)
  with same differ show ?thesis using test_parse by (simp add: test_args_def)
qed

end
